theory Spec2Isabelle
  imports Main
begin

section \<open>The document as the component reads it\<close>

text \<open>
  The component reads four things of a DOM element: its \<^verbatim>\<open>tagName\<close>, its attributes
  (\<^verbatim>\<open>getAttribute\<close>, \<^verbatim>\<open>hasAttribute\<close>), its ancestors (\<^verbatim>\<open>closest\<close>) and its
  \<^verbatim>\<open>nextElementSibling\<close>. An \<open>element\<close> is the state of one node at the moment it is
  read: namespace prefix (if any) and local name, attribute list, parent chain and
  following sibling. A detached node has neither parent nor sibling. Strings are
  character lists; the attribute values the component compares are ASCII.
\<close>

datatype element =
  Element (prefix: "string option") (localName: string)
          (attributes: "(string \<times> string) list")
          (parentElement: "element option") (nextElementSibling: "element option")

text \<open>
  \<^verbatim>\<open>tagName\<close> of an element of an XML document is its qualified name: the local name,
  behind the prefix and a colon when the element has a prefix.
\<close>

definition tagName :: "element \<Rightarrow> string" where
  "tagName e = (case prefix e of None \<Rightarrow> localName e | Some p \<Rightarrow> p @ '':'' @ localName e)"

text \<open>\<^verbatim>\<open>getAttribute\<close> answers \<^verbatim>\<open>null\<close> (here \<open>None\<close>) for a missing attribute.\<close>

definition getAttribute :: "element \<Rightarrow> string \<Rightarrow> string option" where
  "getAttribute e name = map_of (attributes e) name"

definition hasAttribute :: "element \<Rightarrow> string \<Rightarrow> bool" where
  "hasAttribute e name = (getAttribute e name \<noteq> None)"

text \<open>
  \<^verbatim>\<open>closest(sel)\<close> with a type selector: the element itself or its nearest ancestor
  that the selector matches, \<^verbatim>\<open>null\<close> when there is none. A type selector without a
  namespace matches on the local name, whatever the prefix: \<^verbatim>\<open>closest('IED')\<close> finds an
  ancestor written \<^verbatim>\<open>scl:IED\<close> as well as one written \<^verbatim>\<open>IED\<close>.
\<close>

fun closest :: "string \<Rightarrow> element \<Rightarrow> element option" where
  "closest sel (Element pf l attrs p n) =
     (if l = sel then Some (Element pf l attrs p n)
      else case p of None \<Rightarrow> None | Some q \<Rightarrow> closest sel q)"

text \<open>
  \<^verbatim>\<open>importNode(e, true)\<close>: a copy of the node with its name and attributes, attached
  nowhere. (An ExtRef has no child elements; the copy of its subtree is the copy of the
  node.)
\<close>

definition importNode :: "element \<Rightarrow> element" where
  "importNode e = Element (prefix e) (localName e) (attributes e) None None"

section \<open>JavaScript string and array primitives\<close>

text \<open>
  \<^verbatim>\<open>s.split(sep)\<close> with a one-character separator: the segments between the
  occurrences of \<open>sep\<close>. The second argument of \<open>splitOn\<close> is the segment being read.
  The result is never the empty array: \<^verbatim>\<open>"".split(".")\<close> is \<^verbatim>\<open>[""]\<close>.
\<close>

fun splitOn :: "char \<Rightarrow> string \<Rightarrow> string \<Rightarrow> string list" where
  "splitOn sep seg [] = [seg]"
| "splitOn sep seg (c # cs) =
     (if c = sep then seg # splitOn sep [] cs else splitOn sep (seg @ [c]) cs)"

definition split_on :: "string \<Rightarrow> char \<Rightarrow> string list" where
  "split_on s sep = splitOn sep [] s"

text \<open>
  \<^verbatim>\<open>xs.slice(start, end)\<close> on arrays and strings alike: a negative index counts from the
  end, both indices are clamped to the length, and a missing \<^verbatim>\<open>end\<close> is the length.
\<close>

definition slice :: "'a list \<Rightarrow> int \<Rightarrow> int option \<Rightarrow> 'a list" where
  "slice xs start end =
     (let n = int (length xs);
          clamp = (\<lambda>i. if i < 0 then max (n + i) 0 else min i n);
          k = clamp start;
          final = (case end of None \<Rightarrow> n | Some e \<Rightarrow> clamp e)
      in take (nat (final - k)) (drop (nat k) xs))"

text \<open>
  \<^verbatim>\<open>JSON.stringify\<close> of an array of strings: each string quoted, with the two-character
  escapes for backspace, tab, newline, form feed, carriage return, quote and backslash and
  \<^verbatim>\<open>\u00XX\<close> for the other control characters, the elements separated by commas between
  square brackets.
\<close>

definition hexDigit :: "nat \<Rightarrow> char" where
  "hexDigit d = ''0123456789abcdef'' ! (d mod 16)"

definition quoteJSONChar :: "char \<Rightarrow> string" where
  "quoteJSONChar c =
     (if c = CHR 0x08 then [CHR 0x5C, CHR ''b'']
      else if c = CHR 0x09 then [CHR 0x5C, CHR ''t'']
      else if c = CHR 0x0A then [CHR 0x5C, CHR ''n'']
      else if c = CHR 0x0C then [CHR 0x5C, CHR ''f'']
      else if c = CHR 0x0D then [CHR 0x5C, CHR ''r'']
      else if c = CHR 0x22 then [CHR 0x5C, CHR 0x22]
      else if c = CHR 0x5C then [CHR 0x5C, CHR 0x5C]
      else if (of_char c :: nat) < 0x20
        then [CHR 0x5C, CHR ''u'', CHR ''0'', CHR ''0'',
              hexDigit (of_char c div 16), hexDigit (of_char c)]
      else [c])"

definition quoteJSONString :: "string \<Rightarrow> string" where
  "quoteJSONString s = [CHR 0x22] @ concat (map quoteJSONChar s) @ [CHR 0x22]"

fun joinWith :: "string \<Rightarrow> string list \<Rightarrow> string" where
  "joinWith sep [] = []"
| "joinWith sep [x] = x"
| "joinWith sep (x # y # ys) = x @ sep @ joinWith sep (y # ys)"

definition JSON_stringify :: "string list \<Rightarrow> string" where
  "JSON_stringify xs = ''['' @ joinWith '','' (map quoteJSONString xs) @ '']''"

section \<open>Pairing predicates\<close>

text \<open>
  \<^verbatim>\<open>isfcdaPairWithQuality(a, b)\<close>: every one of the six addressing attributes is
  strictly equal on \<open>a\<close> and \<open>b\<close> (two missing attributes are both \<^verbatim>\<open>null\<close>, hence
  equal), or it is \<^verbatim>\<open>daName\<close> and the last dot-separated segment of \<open>b\<close>'s value is
  \<^verbatim>\<open>q\<close>. The optional chain yields \<^verbatim>\<open>undefined\<close>, which is not \<^verbatim>\<open>'q'\<close>, when \<open>b\<close> has
  no \<^verbatim>\<open>daName\<close>.
\<close>

definition isfcdaPairWithQuality :: "element \<Rightarrow> element \<Rightarrow> bool" where
  "isfcdaPairWithQuality a b =
     list_all
       (\<lambda>attr. getAttribute a attr = getAttribute b attr \<or>
          (attr = ''daName'' \<and>
           (case getAttribute b ''daName'' of
              None \<Rightarrow> False
            | Some d \<Rightarrow>
                (case slice (split_on d CHR ''.'') (- 1) None of
                   [] \<Rightarrow> False
                 | s # _ \<Rightarrow> s = ''q''))))
       [''ldInst'', ''prefix'', ''lnClass'', ''lnInst'', ''doName'', ''daName'']"

text \<open>
  \<^verbatim>\<open>extRefMatchNR(a, b)\<close>: false when either \<^verbatim>\<open>intAddr\<close> is missing (a split result is an
  array, which is always truthy); otherwise the serialisations of the two segment arrays
  without their last entries are equal and the last character of \<open>b\<close>'s last segment is
  \<^verbatim>\<open>q\<close>. The index \<^verbatim>\<open>bParts.length - 1\<close> is in range because a split result is not empty
  (lemma \<open>split_on_not_Nil\<close> below).
\<close>

definition extRefMatchNR :: "element \<Rightarrow> element \<Rightarrow> bool" where
  "extRefMatchNR a b =
     (let aParts = map_option (\<lambda>s. split_on s CHR ''.'') (getAttribute a ''intAddr'');
          bParts = map_option (\<lambda>s. split_on s CHR ''.'') (getAttribute b ''intAddr'')
      in case (aParts, bParts) of
           (Some ap, Some bp) \<Rightarrow>
             JSON_stringify (slice ap 0 (Some (int (length ap) - 1))) =
               JSON_stringify (slice bp 0 (Some (int (length bp) - 1))) \<and>
             slice (bp ! (length bp - 1)) (- 1) None = ''q''
         | _ \<Rightarrow> False)"

section \<open>Edits, notifications and the live document\<close>

text \<open>
  An edit of the host is an insert, an update of an element, a removal or an array of
  edits (\<open>Complex\<close>). Edits name live nodes by reference; what a reference shows depends
  on the moment the document is read, so reading goes through the \<open>document\<close>.
  \<^verbatim>\<open>isUpdate(edit)\<close> holds of the edits that have an \<^verbatim>\<open>element\<close> field, the updates:
  the handlers below match on \<open>Update\<close> where the source tests \<^verbatim>\<open>isUpdate\<close>.
\<close>

type_synonym ref = nat

datatype edit =
    Insert ref ref "ref option"
  | Update ref "(string \<times> string option) list"
  | Remove ref
  | Complex "edit list"

text \<open>\<^verbatim>\<open>xs.flat(Infinity)\<close>: the entries of the nested arrays, in order.\<close>

fun flat :: "edit list \<Rightarrow> edit list" where
  "flat [] = []"
| "flat (Complex es # rest) = flat es @ flat rest"
| "flat (e # rest) = e # flat rest"

text \<open>
  The first entry of an event's composed path is an element or something else (the
  window, the document); the path may be empty once dispatch is over.
\<close>

datatype eventTarget = ElementTarget element | OtherTarget

record editEvent =
  composedPath :: "eventTarget list"
  detail :: edit

text \<open>
  The live document at one moment: the state of each referenced node, and the three
  lookups of \<^verbatim>\<open>foundation/subscription/subscription.js\<close>, which the component
  imports and which read the document. They are parameters of the model:
  \<open>findFCDAs\<close> may answer nothing (\<open>None\<close>, a falsy result) or an array, and
  \<open>findControlBlock\<close> may fail to resolve a control block. They are applied to
  elements: the source guards \<^verbatim>\<open>isSubscribed\<close> against an absent snapshot and needs a
  non-null assertion to hand one to \<^verbatim>\<open>findFCDAs\<close>.
\<close>

record document =
  deref :: "ref \<Rightarrow> element"
  isSubscribed :: "element \<Rightarrow> bool"
  findFCDAs :: "element \<Rightarrow> element list option"
  findControlBlock :: "element \<Rightarrow> element option"

text \<open>
  What the component dispatches: \<^verbatim>\<open>newEditEvent(subscribe({sink, source: {fcda,
  controlBlock}}))\<close> or \<^verbatim>\<open>newEditEvent(unsubscribe([sink]))\<close>, recorded by the arguments
  handed to the library.
\<close>

datatype request =
    Subscribe (sink: element) (fcda: element) (controlBlock: element)
  | Unsubscribe "element list"

text \<open>The fields of the component that its handlers read and write.\<close>

record component =
  preEventExtRef :: "element option list"
  ignoreSupervision :: bool
  enabled :: bool

text \<open>
  The one place where the source hands an absent value to a function declared on
  elements: \<^verbatim>\<open>findFCDAs(preEventExtRef!)\<close> with a \<^verbatim>\<open>null\<close> snapshot. The non-null
  assertion is erased at run time; what happens then is the callee's business, and the
  model stops there.
\<close>

datatype failure = AbsentSnapshot

section \<open>The handlers\<close>

definition shouldListen :: "editEvent \<Rightarrow> bool" where
  "shouldListen event =
     (case composedPath event of
        ElementTarget initiatingTarget # _ \<Rightarrow>
          getAttribute initiatingTarget ''identity'' =
            Some ''danyill.oscd-subscriber-later-binding'' \<and>
          hasAttribute initiatingTarget ''allowexternalplugins''
      | _ \<Rightarrow> False)"

text \<open>The callback of \<^verbatim>\<open>flatEdits.map\<close> in \<^verbatim>\<open>captureMetadata\<close>.\<close>

fun snapshot :: "document \<Rightarrow> edit \<Rightarrow> element option" where
  "snapshot doc (Update r attrs) =
     (if tagName (deref doc r) = ''ExtRef'' then Some (importNode (deref doc r)) else None)"
| "snapshot doc e = None"

definition captureMetadata :: "document \<Rightarrow> editEvent \<Rightarrow> component \<Rightarrow> component" where
  "captureMetadata doc event this =
     (if shouldListen event then
        (case composedPath event of
           ElementTarget initiatingTarget # _ \<Rightarrow>
             this\<lparr>ignoreSupervision := hasAttribute initiatingTarget ''ignoresupervision'',
                  preEventExtRef := map (snapshot doc) (flat [detail event])\<rparr>
         | _ \<Rightarrow> this)
      else this)"

text \<open>
  \<^verbatim>\<open>modifyValueAndQualityPair\<close> returns the requests it dispatches, in order. The second
  guard reads \<^verbatim>\<open>isSubscribed(firstExtRef)\<close> only when \<open>wasSubscribed\<close> holds, that is
  when the first guard has dispatched nothing, so both guards read the same document.
\<close>

definition modifyValueAndQualityPair ::
  "document \<Rightarrow> element \<Rightarrow> element option \<Rightarrow> element \<Rightarrow> request list" where
  "modifyValueAndQualityPair doc firstExtRef pre firstFcda =
     (let controlBlock = findControlBlock doc firstExtRef in
      case (nextElementSibling firstFcda, nextElementSibling firstExtRef) of
        (Some nextFcda, Some nextExtRef) \<Rightarrow>
          (let wasSubscribed = (case pre of None \<Rightarrow> False | Some p \<Rightarrow> isSubscribed doc p) in
           if extRefMatchNR firstExtRef nextExtRef \<and> isfcdaPairWithQuality firstFcda nextFcda
           then
             (if \<not> wasSubscribed \<and> isSubscribed doc firstExtRef
              then (case controlBlock of
                      Some cb \<Rightarrow> [Subscribe nextExtRef nextFcda cb]
                    | None \<Rightarrow> [])
              else []) @
             (if wasSubscribed \<and> \<not> isSubscribed doc firstExtRef
              then [Unsubscribe [nextExtRef]]
              else [])
           else [])
      | _ \<Rightarrow> [])"

text \<open>
  \<^verbatim>\<open>processNRExtRef\<close>: the early return needs a present snapshot; past it, the
  descriptors are looked up from \<open>extRef\<close> when it is subscribed and from the snapshot
  otherwise. \<^verbatim>\<open>fcdas[0]\<close> of an empty array is \<^verbatim>\<open>undefined\<close>.
\<close>

definition processNRExtRef ::
  "document \<Rightarrow> element \<Rightarrow> element option \<Rightarrow> failure + request list" where
  "processNRExtRef doc extRef pre =
     (if \<not> isSubscribed doc extRef \<and>
         (case pre of None \<Rightarrow> False | Some p \<Rightarrow> \<not> isSubscribed doc p)
      then Inr []
      else
        (case (if isSubscribed doc extRef then Inr (findFCDAs doc extRef)
               else (case pre of
                       None \<Rightarrow> Inl AbsentSnapshot
                     | Some p \<Rightarrow> Inr (findFCDAs doc p))) of
           Inl f \<Rightarrow> Inl f
         | Inr fcdas \<Rightarrow>
             (case (case fcdas of Some (x # _) \<Rightarrow> Some x | _ \<Rightarrow> None) of
                None \<Rightarrow> Inr []
              | Some firstFcda \<Rightarrow> Inr (modifyValueAndQualityPair doc extRef pre firstFcda))))"

text \<open>
  \<^verbatim>\<open>this.preEventExtRef[index]\<close>: past the end of the array the read is \<^verbatim>\<open>undefined\<close>,
  which the code treats like \<^verbatim>\<open>null\<close>.
\<close>

definition at :: "'a option list \<Rightarrow> nat \<Rightarrow> 'a option" where
  "at xs i = (if i < length xs then xs ! i else None)"

text \<open>The callback of \<^verbatim>\<open>flatEdits.forEach\<close> in \<^verbatim>\<open>modifyAdditionalExtRefs\<close>.\<close>

fun editCallback ::
  "document \<Rightarrow> element option list \<Rightarrow> edit \<Rightarrow> nat \<Rightarrow> failure + request list" where
  "editCallback doc snapshots (Update r attrs) index =
     (if tagName (deref doc r) = ''ExtRef'' \<and>
         Option.bind (closest ''IED'' (deref doc r)) (\<lambda>ied. getAttribute ied ''manufacturer'') =
           Some ''NRR''
      then processNRExtRef doc (deref doc r) (at snapshots index)
      else Inr [])"
| "editCallback doc snapshots e index = Inr []"

text \<open>
  \<^verbatim>\<open>dispatchEvent\<close> is synchronous: the host may have changed the document before the
  next entry is read. \<open>host\<close> is the host's reaction to one request. The dispatched
  notification starts at the component itself, which does not carry the later-binding
  identity, so the component's own handlers do not react to it.
\<close>

fun forEachEdit ::
  "(request \<Rightarrow> document \<Rightarrow> document) \<Rightarrow> element option list \<Rightarrow> edit list \<Rightarrow> nat \<Rightarrow>
   document \<Rightarrow> request list \<Rightarrow> failure + (document \<times> request list)" where
  "forEachEdit host snapshots [] index doc out = Inr (doc, out)"
| "forEachEdit host snapshots (e # es) index doc out =
     (case editCallback doc snapshots e index of
        Inl f \<Rightarrow> Inl f
      | Inr reqs \<Rightarrow>
          forEachEdit host snapshots es (Suc index)
            (foldl (\<lambda>d r. host r d) doc reqs) (out @ reqs))"

definition modifyAdditionalExtRefs ::
  "(request \<Rightarrow> document \<Rightarrow> document) \<Rightarrow> document \<Rightarrow> editEvent \<Rightarrow> component \<Rightarrow>
   failure + (component \<times> request list)" where
  "modifyAdditionalExtRefs host doc event this =
     (if \<not> enabled this then Inr (this, [])
      else
        (case forEachEdit host (preEventExtRef this) (flat [detail event]) 0 doc [] of
           Inl f \<Rightarrow> Inl f
         | Inr (doc', out) \<Rightarrow>
             Inr (this\<lparr>preEventExtRef := [], ignoreSupervision := False\<rparr>, out)))"

text \<open>
  One notification: the constructor registers \<^verbatim>\<open>captureMetadata\<close> for the capturing
  phase and, behind \<^verbatim>\<open>shouldListen\<close>, \<^verbatim>\<open>modifyAdditionalExtRefs\<close> for the bubbling phase.
  Between the two the host applies the notification's edits: \<open>earlier\<close> is the document
  the first handler reads, \<open>later\<close> the one the second handler starts from.
\<close>

definition onOscdEdit ::
  "(request \<Rightarrow> document \<Rightarrow> document) \<Rightarrow> document \<Rightarrow> document \<Rightarrow> editEvent \<Rightarrow> component \<Rightarrow>
   failure + (component \<times> request list)" where
  "onOscdEdit host earlier later event this =
     (let captured = captureMetadata earlier event this in
      if shouldListen event then modifyAdditionalExtRefs host later event captured
      else Inr (captured, []))"

section \<open>A small substation document\<close>

text \<open>
  The documents and the notifications used to run the handlers: the later-binding plugin
  as the initiating target, a receiving device with a value ExtRef followed by its
  quality ExtRef, a data set with a value FCDA followed by its quality FCDA, and a GOOSE
  control block. In \<open>liveDoc\<close> every reference shows the given ExtRef, an ExtRef counts
  as subscribed when it names a publishing device, and the lookups resolve for
  subscribed elements only. One notification binds the value ExtRef, the other unbinds
  it; each carries the update of the ExtRef and, nested, an insert.
\<close>

definition laterBinding :: element where
  "laterBinding =
     Element None ''oscd-plugin''
       [(''identity'', ''danyill.oscd-subscriber-later-binding''),
        (''allowexternalplugins'', []), (''ignoresupervision'', [])] None None"

definition inputsOf :: "string \<Rightarrow> element" where
  "inputsOf manufacturer =
     Element None ''Inputs'' []
       (Some (Element None ''LN0'' [(''lnClass'', ''LLN0'')]
          (Some (Element None ''IED'' [(''name'', ''Sub''), (''manufacturer'', manufacturer)]
             None None))
          None))
       None"

definition qualityExtRef :: "string \<Rightarrow> element" where
  "qualityExtRef manufacturer =
     Element None ''ExtRef'' [(''intAddr'', ''RxExtIn1.q'')] (Some (inputsOf manufacturer)) None"

definition unboundExtRef :: "string \<Rightarrow> element" where
  "unboundExtRef manufacturer =
     Element None ''ExtRef'' [(''intAddr'', ''RxExtIn1.stVal'')]
       (Some (inputsOf manufacturer)) (Some (qualityExtRef manufacturer))"

definition boundExtRef :: "string \<Rightarrow> element" where
  "boundExtRef manufacturer =
     Element None ''ExtRef'' [(''intAddr'', ''RxExtIn1.stVal''), (''iedName'', ''Pub'')]
       (Some (inputsOf manufacturer)) (Some (qualityExtRef manufacturer))"

definition fcdaQuality :: element where
  "fcdaQuality =
     Element None ''FCDA''
       [(''ldInst'', ''LD0''), (''lnClass'', ''GGIO''), (''lnInst'', ''1''),
        (''doName'', ''Ind1''), (''daName'', ''q''), (''fc'', ''ST'')] None None"

definition fcdaValue :: element where
  "fcdaValue =
     Element None ''FCDA''
       [(''ldInst'', ''LD0''), (''lnClass'', ''GGIO''), (''lnInst'', ''1''),
        (''doName'', ''Ind1''), (''daName'', ''stVal''), (''fc'', ''ST'')]
       None (Some fcdaQuality)"

definition gseControl :: element where
  "gseControl = Element None ''GSEControl'' [(''name'', ''GOOSE1'')] None None"

definition liveDoc :: "element \<Rightarrow> document" where
  "liveDoc extRef =
     \<lparr>deref = (\<lambda>r. extRef),
      isSubscribed = (\<lambda>e. hasAttribute e ''iedName''),
      findFCDAs = (\<lambda>e. if hasAttribute e ''iedName'' then Some [fcdaValue] else Some []),
      findControlBlock = (\<lambda>e. if hasAttribute e ''iedName'' then Some gseControl else None)\<rparr>"

definition bindingEvent :: editEvent where
  "bindingEvent =
     \<lparr>composedPath = [ElementTarget laterBinding, OtherTarget],
      detail = Complex [Update 0 [(''iedName'', Some ''Pub'')], Complex [Insert 2 3 None]]\<rparr>"

definition unbindingEvent :: editEvent where
  "unbindingEvent =
     \<lparr>composedPath = [ElementTarget laterBinding, OtherTarget],
      detail = Complex [Update 0 [(''iedName'', None)], Complex [Insert 2 3 None]]\<rparr>"

definition idle :: "bool \<Rightarrow> component" where
  "idle on = \<lparr>preEventExtRef = [], ignoreSupervision = False, enabled = on\<rparr>"

text \<open>A host that leaves the document alone when the component dispatches.\<close>

definition inertHost :: "request \<Rightarrow> document \<Rightarrow> document" where
  "inertHost req doc = doc"

section \<open>Facts about the primitives\<close>

lemma tagName_unprefixed [simp]: "tagName (Element None l attrs p n) = l"
  by (simp add: tagName_def)

text \<open>An element whose qualified name is \<^verbatim>\<open>ExtRef\<close> has no prefix.\<close>

lemma tagName_ExtRef:
  assumes "tagName e = ''ExtRef''"
  shows "prefix e = None \<and> localName e = ''ExtRef''"
proof (cases "prefix e")
  case None
  with assms show ?thesis by (simp add: tagName_def)
next
  case (Some p)
  have "CHR '':'' \<in> set (p @ '':'' @ localName e)" by simp
  moreover have "CHR '':'' \<notin> set ''ExtRef''" by simp
  ultimately have "p @ '':'' @ localName e \<noteq> ''ExtRef''" by metis
  with assms Some show ?thesis by (simp add: tagName_def)
qed

text \<open>The type selector sees through a namespace prefix.\<close>

lemma closest_prefixed_IED:
  "Option.bind
     (closest ''IED''
        (Element None ''ExtRef'' []
           (Some (Element (Some ''scl'') ''IED'' [(''manufacturer'', ''NRR'')] None None)) None))
     (\<lambda>ied. getAttribute ied ''manufacturer'') = Some ''NRR''"
  by (simp add: getAttribute_def)

lemma splitOn_not_Nil: "splitOn sep seg s \<noteq> []"
  by (induction s arbitrary: seg) auto

lemma split_on_not_Nil: "split_on s sep \<noteq> []"
  by (simp add: split_on_def splitOn_not_Nil)

lemma slice_last_char: "xs \<noteq> [] \<Longrightarrow> slice xs (- 1) None = [last xs]"
proof -
  assume "xs \<noteq> []"
  then obtain ys y where xs: "xs = ys @ [y]"
    by (metis append_butlast_last_id)
  show ?thesis
    by (simp add: xs slice_def Let_def)
qed

lemma slice_last_is: "slice xs (- 1) None = [c] \<longleftrightarrow> xs \<noteq> [] \<and> last xs = c"
proof (cases "xs = []")
  case True
  then show ?thesis by (simp add: slice_def)
next
  case False
  then show ?thesis by (simp add: slice_last_char)
qed

lemma splitOn_no_sep: "sep \<notin> set s \<Longrightarrow> splitOn sep seg s = [seg @ s]"
  by (induction s arbitrary: seg) auto

lemma split_on_no_sep: "sep \<notin> set s \<Longrightarrow> split_on s sep = [s]"
  by (simp add: split_on_def splitOn_no_sep)

text \<open>
  On internal addresses without a dot the address check compares two empty arrays: it
  holds exactly when the second address ends in \<^verbatim>\<open>q\<close>.
\<close>

lemma extRefMatchNR_dotless:
  assumes "getAttribute a ''intAddr'' = Some s"
      and "getAttribute b ''intAddr'' = Some t"
      and "CHR ''.'' \<notin> set s" and "CHR ''.'' \<notin> set t"
  shows "extRefMatchNR a b \<longleftrightarrow> t \<noteq> [] \<and> last t = CHR ''q''"
  using assms
  by (simp add: extRefMatchNR_def split_on_no_sep slice_def [of "[_]"] slice_last_is)

lemma flat_no_Complex: "Complex es \<notin> set (flat xs)"
  by (induction xs rule: flat.induct) auto

lemma shouldListen_target:
  "shouldListen event \<Longrightarrow> \<exists>t rest. composedPath event = ElementTarget t # rest"
  by (auto simp: shouldListen_def split: list.splits eventTarget.splits)

lemma captureMetadata_gate:
  assumes "shouldListen event"
  shows "\<exists>b. captureMetadata doc event this =
           this\<lparr>ignoreSupervision := b,
                preEventExtRef := map (snapshot doc) (flat [detail event])\<rparr>"
  using assms shouldListen_target [OF assms] by (auto simp: captureMetadata_def)

lemma captureMetadata_enabled: "enabled (captureMetadata doc event this) = enabled this"
  by (simp add: captureMetadata_def split: list.splits eventTarget.splits)

lemma captureMetadata_closed:
  "\<not> shouldListen event \<Longrightarrow> captureMetadata doc event this = this"
  by (simp add: captureMetadata_def)

text \<open>
  The value/quality propagation dispatches nothing, one subscribe request or one
  unsubscribe request.
\<close>

lemma modifyValueAndQualityPair_shape:
  "modifyValueAndQualityPair doc firstExtRef pre firstFcda = [] \<or>
   (\<exists>s f cb. modifyValueAndQualityPair doc firstExtRef pre firstFcda = [Subscribe s f cb]) \<or>
   (\<exists>s. modifyValueAndQualityPair doc firstExtRef pre firstFcda = [Unsubscribe [s]])"
  by (simp add: modifyValueAndQualityPair_def Let_def split: option.split)

lemma modifyValueAndQualityPair_unresolved:
  assumes "findControlBlock doc firstExtRef = None"
  shows "modifyValueAndQualityPair doc firstExtRef pre firstFcda = [] \<or>
         (\<exists>s. modifyValueAndQualityPair doc firstExtRef pre firstFcda = [Unsubscribe [s]])"
  using assms by (simp add: modifyValueAndQualityPair_def Let_def split: option.split)

text \<open>
  With a snapshot at hand the reconciliation always returns; without one it returns
  only when the element is subscribed.
\<close>

lemma processNRExtRef_present:
  "\<exists>reqs. processNRExtRef doc extRef (Some p) = Inr reqs"
  by (simp add: processNRExtRef_def split: option.split list.split)

lemma processNRExtRef_without_snapshot:
  "\<not> isSubscribed doc extRef \<Longrightarrow> processNRExtRef doc extRef None = Inl AbsentSnapshot"
  by (simp add: processNRExtRef_def)

text \<open>
  The callback reconciles exactly the updates of an ExtRef whose nearest IED ancestor
  carries the manufacturer \<^verbatim>\<open>NRR\<close>.
\<close>

lemma editCallback_reconciles:
  assumes "tagName (deref doc r) = ''ExtRef''"
      and "Option.bind (closest ''IED'' (deref doc r))
             (\<lambda>ied. getAttribute ied ''manufacturer'') = Some ''NRR''"
  shows "editCallback doc snapshots (Update r attrs) index =
           processNRExtRef doc (deref doc r) (at snapshots index)"
  using assms by simp

text \<open>
  The loop of the second handler returns when every entry it reconciles has a snapshot.
  Tags do not change under the host, so an entry that is an ExtRef update when the loop
  reaches it was one when the loop started.
\<close>

lemma foldl_host_tag:
  assumes "\<And>req d r. tagName (deref (host req d) r) = tagName (deref d r)"
  shows "tagName (deref (foldl (\<lambda>d r. host r d) doc reqs) x) = tagName (deref doc x)"
  using assms by (induction reqs arbitrary: doc) simp_all

lemma forEachEdit_returns:
  assumes host: "\<And>req d r. tagName (deref (host req d) r) = tagName (deref d r)"
      and snaps: "\<And>j r attrs. j < length es \<Longrightarrow> es ! j = Update r attrs \<Longrightarrow>
                    tagName (deref doc r) = ''ExtRef'' \<Longrightarrow> at snapshots (index + j) \<noteq> None"
  shows "\<exists>doc' out'. forEachEdit host snapshots es index doc out = Inr (doc', out')"
  using snaps
proof (induction es arbitrary: index doc out)
  case Nil
  then show ?case by simp
next
  case (Cons e es)
  have "\<exists>reqs. editCallback doc snapshots e index = Inr reqs"
  proof (cases e)
    case (Update r attrs)
    show ?thesis
    proof (cases "tagName (deref doc r) = ''ExtRef''")
      case True
      with Cons.prems [of 0 r attrs] Update obtain p where "at snapshots index = Some p"
        by auto
      then show ?thesis
        using Update processNRExtRef_present [of doc "deref doc r" p] by auto
    next
      case False
      then show ?thesis using Update by simp
    qed
  qed simp_all
  then obtain reqs where reqs: "editCallback doc snapshots e index = Inr reqs" ..
  let ?doc = "foldl (\<lambda>d r. host r d) doc reqs"
  have "\<exists>doc' out'.
          forEachEdit host snapshots es (Suc index) ?doc (out @ reqs) = Inr (doc', out')"
  proof (rule Cons.IH)
    fix j r attrs
    assume "j < length es" "es ! j = Update r attrs" "tagName (deref ?doc r) = ''ExtRef''"
    then show "at snapshots (Suc index + j) \<noteq> None"
      using Cons.prems [of "Suc j" r attrs] foldl_host_tag [of host doc reqs r, OF host]
      by simp
  qed
  then show ?case by (simp add: reqs)
qed

lemma react_after_capture_returns:
  assumes host: "\<forall>req d r. tagName (deref (host req d) r) = tagName (deref d r)"
      and doc: "\<forall>r. tagName (deref later r) = tagName (deref earlier r)"
  shows "\<exists>doc' out.
           forEachEdit host (map (snapshot earlier) es) es 0 later [] = Inr (doc', out)"
proof (rule forEachEdit_returns)
  show "tagName (deref (host req d) r) = tagName (deref d r)" for req d r
    using host by simp
next
  fix j r attrs
  assume "j < length es" "es ! j = Update r attrs" "tagName (deref later r) = ''ExtRef''"
  then show "at (map (snapshot earlier) es) (0 + j) \<noteq> None"
    using doc by (simp add: at_def)
qed

section \<open>Facts about the small document\<close>

lemma gate_bindingEvent: "shouldListen bindingEvent"
  by (simp add: shouldListen_def bindingEvent_def laterBinding_def getAttribute_def
        hasAttribute_def)

lemma flat_bindingEvent:
  "flat [detail bindingEvent] = [Update 0 [(''iedName'', Some ''Pub'')], Insert 2 3 None]"
  by (simp add: bindingEvent_def)

lemma gate_unbindingEvent: "shouldListen unbindingEvent"
  by (simp add: shouldListen_def unbindingEvent_def laterBinding_def getAttribute_def
        hasAttribute_def)

lemma flat_unbindingEvent:
  "flat [detail unbindingEvent] = [Update 0 [(''iedName'', None)], Insert 2 3 None]"
  by (simp add: unbindingEvent_def)

lemma capture_unbound:
  "captureMetadata (liveDoc (unboundExtRef m)) bindingEvent (idle on) =
     \<lparr>preEventExtRef =
        [Some (Element None ''ExtRef'' [(''intAddr'', ''RxExtIn1.stVal'')] None None), None],
      ignoreSupervision = True, enabled = on\<rparr>"
  by (simp add: captureMetadata_def gate_bindingEvent flat_bindingEvent)
     (simp add: bindingEvent_def laterBinding_def hasAttribute_def getAttribute_def idle_def
        liveDoc_def unboundExtRef_def importNode_def)

lemma capture_bound:
  "captureMetadata (liveDoc (boundExtRef m)) unbindingEvent (idle on) =
     \<lparr>preEventExtRef =
        [Some (Element None ''ExtRef'' [(''intAddr'', ''RxExtIn1.stVal''), (''iedName'', ''Pub'')]
                 None None),
         None],
      ignoreSupervision = True, enabled = on\<rparr>"
  by (simp add: captureMetadata_def gate_unbindingEvent flat_unbindingEvent)
     (simp add: unbindingEvent_def laterBinding_def hasAttribute_def getAttribute_def idle_def
        liveDoc_def boundExtRef_def importNode_def)

lemma manufacturer_bound:
  "Option.bind (closest ''IED'' (boundExtRef m)) (\<lambda>ied. getAttribute ied ''manufacturer'') =
     Some m"
  by (simp add: boundExtRef_def inputsOf_def getAttribute_def)

lemma value_quality_addresses: "extRefMatchNR (unboundExtRef m) (qualityExtRef m)"
  by (simp add: extRefMatchNR_def unboundExtRef_def qualityExtRef_def getAttribute_def
        split_on_def slice_def)

lemma value_quality_addresses_bound: "extRefMatchNR (boundExtRef m) (qualityExtRef m)"
  by (simp add: extRefMatchNR_def boundExtRef_def qualityExtRef_def getAttribute_def
        split_on_def slice_def)

lemma value_quality_fcdas: "isfcdaPairWithQuality fcdaValue fcdaQuality"
  by (simp add: isfcdaPairWithQuality_def fcdaValue_def fcdaQuality_def getAttribute_def
        split_on_def slice_def)

lemma manufacturer_unbound:
  "Option.bind (closest ''IED'' (unboundExtRef m)) (\<lambda>ied. getAttribute ied ''manufacturer'') =
     Some m"
  by (simp add: unboundExtRef_def inputsOf_def getAttribute_def)

lemma snapshot_unbound:
  "importNode (unboundExtRef m) =
     Element None ''ExtRef'' [(''intAddr'', ''RxExtIn1.stVal'')] None None"
  by (simp add: importNode_def unboundExtRef_def)

lemma snapshot_bound:
  "importNode (boundExtRef m) =
     Element None ''ExtRef'' [(''intAddr'', ''RxExtIn1.stVal''), (''iedName'', ''Pub'')] None None"
  by (simp add: importNode_def boundExtRef_def)

text \<open>
  The two end-to-end scenarios. Binding the value ExtRef of an NRR device makes the
  component dispatch one subscribe request, for the quality ExtRef, with the quality FCDA
  and the control block of the value ExtRef.
\<close>

lemma pair_subscribes:
  "modifyValueAndQualityPair (liveDoc (boundExtRef m)) (boundExtRef m)
       (Some (importNode (unboundExtRef m))) fcdaValue =
     [Subscribe (qualityExtRef m) fcdaQuality gseControl]"
proof -
  have sibF: "nextElementSibling fcdaValue = Some fcdaQuality"
    by (simp add: fcdaValue_def)
  have sibE: "nextElementSibling (boundExtRef m) = Some (qualityExtRef m)"
    by (simp add: boundExtRef_def)
  have was: "\<not> isSubscribed (liveDoc (boundExtRef m)) (importNode (unboundExtRef m))"
    by (simp add: liveDoc_def importNode_def unboundExtRef_def hasAttribute_def getAttribute_def)
  have now: "isSubscribed (liveDoc (boundExtRef m)) (boundExtRef m)"
    by (simp add: liveDoc_def boundExtRef_def hasAttribute_def getAttribute_def)
  have cb: "findControlBlock (liveDoc (boundExtRef m)) (boundExtRef m) = Some gseControl"
    by (simp add: liveDoc_def boundExtRef_def hasAttribute_def getAttribute_def)
  show ?thesis
    by (simp add: modifyValueAndQualityPair_def sibF sibE was now cb
          value_quality_addresses_bound value_quality_fcdas)
qed

lemma reconcile_subscribes:
  "processNRExtRef (liveDoc (boundExtRef m)) (boundExtRef m)
       (Some (importNode (unboundExtRef m))) =
     Inr [Subscribe (qualityExtRef m) fcdaQuality gseControl]"
proof -
  have now: "isSubscribed (liveDoc (boundExtRef m)) (boundExtRef m)"
    by (simp add: liveDoc_def boundExtRef_def hasAttribute_def getAttribute_def)
  have fcdas: "findFCDAs (liveDoc (boundExtRef m)) (boundExtRef m) = Some [fcdaValue]"
    by (simp add: liveDoc_def boundExtRef_def hasAttribute_def getAttribute_def)
  show ?thesis
    by (simp add: processNRExtRef_def now fcdas pair_subscribes)
qed

lemma round_trip_subscribes:
  "onOscdEdit inertHost (liveDoc (unboundExtRef ''NRR'')) (liveDoc (boundExtRef ''NRR''))
       bindingEvent (idle True) =
     Inr (idle True, [Subscribe (qualityExtRef ''NRR'') fcdaQuality gseControl])"
proof -
  have tag: "tagName (deref (liveDoc (boundExtRef ''NRR'')) 0) = ''ExtRef''"
    by (simp add: liveDoc_def boundExtRef_def)
  have el: "deref (liveDoc (boundExtRef ''NRR'')) 0 = boundExtRef ''NRR''"
    by (simp add: liveDoc_def)
  have cb: "editCallback (liveDoc (boundExtRef ''NRR''))
              [Some (importNode (unboundExtRef ''NRR'')), None]
              (Update 0 [(''iedName'', Some ''Pub'')]) 0 =
            Inr [Subscribe (qualityExtRef ''NRR'') fcdaQuality gseControl]"
    using tag by (simp add: el manufacturer_bound at_def reconcile_subscribes)
  have loop: "forEachEdit inertHost
              [Some (Element None ''ExtRef'' [(''intAddr'', ''RxExtIn1.stVal'')] None None), None]
              [Update 0 [(''iedName'', Some ''Pub'')], Insert 2 3 None] 0
              (liveDoc (boundExtRef ''NRR'')) [] =
            Inr (liveDoc (boundExtRef ''NRR''),
                 [Subscribe (qualityExtRef ''NRR'') fcdaQuality gseControl])"
    by (simp add: cb [unfolded snapshot_unbound] inertHost_def del: editCallback.simps(1))
  have react: "modifyAdditionalExtRefs inertHost (liveDoc (boundExtRef ''NRR'')) bindingEvent
              \<lparr>preEventExtRef =
                 [Some (Element None ''ExtRef'' [(''intAddr'', ''RxExtIn1.stVal'')] None None), None],
               ignoreSupervision = True, enabled = True\<rparr> =
            Inr (idle True, [Subscribe (qualityExtRef ''NRR'') fcdaQuality gseControl])"
    by (simp add: modifyAdditionalExtRefs_def flat_bindingEvent loop idle_def
          del: forEachEdit.simps)
  show ?thesis
    by (simp add: onOscdEdit_def Let_def gate_bindingEvent capture_unbound react)
qed

text \<open>
  Unbinding it makes the component dispatch one unsubscribe request, for the quality
  ExtRef; the descriptors are found from the snapshot.
\<close>

lemma pair_unsubscribes:
  "modifyValueAndQualityPair (liveDoc (unboundExtRef m)) (unboundExtRef m)
       (Some (importNode (boundExtRef m))) fcdaValue =
     [Unsubscribe [qualityExtRef m]]"
proof -
  have sibF: "nextElementSibling fcdaValue = Some fcdaQuality"
    by (simp add: fcdaValue_def)
  have sibE: "nextElementSibling (unboundExtRef m) = Some (qualityExtRef m)"
    by (simp add: unboundExtRef_def)
  have was: "isSubscribed (liveDoc (unboundExtRef m)) (importNode (boundExtRef m))"
    by (simp add: liveDoc_def importNode_def boundExtRef_def hasAttribute_def getAttribute_def)
  have now: "\<not> isSubscribed (liveDoc (unboundExtRef m)) (unboundExtRef m)"
    by (simp add: liveDoc_def unboundExtRef_def hasAttribute_def getAttribute_def)
  show ?thesis
    by (simp add: modifyValueAndQualityPair_def sibF sibE was now
          value_quality_addresses value_quality_fcdas)
qed

lemma reconcile_unsubscribes:
  "processNRExtRef (liveDoc (unboundExtRef m)) (unboundExtRef m)
       (Some (importNode (boundExtRef m))) =
     Inr [Unsubscribe [qualityExtRef m]]"
proof -
  have was: "isSubscribed (liveDoc (unboundExtRef m)) (importNode (boundExtRef m))"
    by (simp add: liveDoc_def importNode_def boundExtRef_def hasAttribute_def getAttribute_def)
  have now: "\<not> isSubscribed (liveDoc (unboundExtRef m)) (unboundExtRef m)"
    by (simp add: liveDoc_def unboundExtRef_def hasAttribute_def getAttribute_def)
  have fcdas: "findFCDAs (liveDoc (unboundExtRef m)) (importNode (boundExtRef m)) =
                 Some [fcdaValue]"
    by (simp add: liveDoc_def importNode_def boundExtRef_def hasAttribute_def getAttribute_def)
  show ?thesis
    by (simp add: processNRExtRef_def was now fcdas pair_unsubscribes)
qed

lemma round_trip_unsubscribes:
  "onOscdEdit inertHost (liveDoc (boundExtRef ''NRR'')) (liveDoc (unboundExtRef ''NRR''))
       unbindingEvent (idle True) =
     Inr (idle True, [Unsubscribe [qualityExtRef ''NRR'']])"
proof -
  have tag: "tagName (deref (liveDoc (unboundExtRef ''NRR'')) 0) = ''ExtRef''"
    by (simp add: liveDoc_def unboundExtRef_def)
  have el: "deref (liveDoc (unboundExtRef ''NRR'')) 0 = unboundExtRef ''NRR''"
    by (simp add: liveDoc_def)
  have cb: "editCallback (liveDoc (unboundExtRef ''NRR''))
              [Some (importNode (boundExtRef ''NRR'')), None]
              (Update 0 [(''iedName'', None)]) 0 =
            Inr [Unsubscribe [qualityExtRef ''NRR'']]"
    using tag by (simp add: el manufacturer_unbound at_def reconcile_unsubscribes)
  have loop: "forEachEdit inertHost
              [Some (Element None ''ExtRef'' [(''intAddr'', ''RxExtIn1.stVal''), (''iedName'', ''Pub'')]
                       None None), None]
              [Update 0 [(''iedName'', None)], Insert 2 3 None] 0
              (liveDoc (unboundExtRef ''NRR'')) [] =
            Inr (liveDoc (unboundExtRef ''NRR''), [Unsubscribe [qualityExtRef ''NRR'']])"
    by (simp add: cb [unfolded snapshot_bound] inertHost_def del: editCallback.simps(1))
  have react: "modifyAdditionalExtRefs inertHost (liveDoc (unboundExtRef ''NRR'')) unbindingEvent
              \<lparr>preEventExtRef =
                 [Some (Element None ''ExtRef''
                          [(''intAddr'', ''RxExtIn1.stVal''), (''iedName'', ''Pub'')] None None),
                  None],
               ignoreSupervision = True, enabled = True\<rparr> =
            Inr (idle True, [Unsubscribe [qualityExtRef ''NRR'']])"
    by (simp add: modifyAdditionalExtRefs_def flat_unbindingEvent loop idle_def
          del: forEachEdit.simps)
  show ?thesis
    by (simp add: onOscdEdit_def Let_def gate_unbindingEvent capture_bound react)
qed

section \<open>The pairing predicates\<close>

text \<open>
  Claim C2. \<^verbatim>\<open>extRefMatchNR\<close> on the internal addresses \<^verbatim>\<open>RxExtIn1;/Ind/stVal\<close> and
  \<^verbatim>\<open>RxExtIn2;/Ind/q\<close>, which the claim expects to be rejected because the path prefixes
  differ: neither address contains a dot, so each splits into one segment, the arrays
  without their last entries are both empty, and the predicate answers true.
\<close>

theorem extRefMatchNR_slash_addresses:
  "split_on ''RxExtIn1;/Ind/stVal'' CHR ''.'' = [''RxExtIn1;/Ind/stVal''] \<and>
   split_on ''RxExtIn2;/Ind/q'' CHR ''.'' = [''RxExtIn2;/Ind/q''] \<and>
   extRefMatchNR (Element None ''ExtRef'' [(''intAddr'', ''RxExtIn1;/Ind/stVal'')] None None)
                 (Element None ''ExtRef'' [(''intAddr'', ''RxExtIn2;/Ind/q'')] None None)"
  by (simp add: extRefMatchNR_def getAttribute_def split_on_def slice_def)

text \<open>
  Claim C3. On two elements that carry none of the six addressing attributes the claim
  expects \<^verbatim>\<open>isfcdaPairWithQuality\<close> to answer false. Here both elements carry an
  \<^verbatim>\<open>fc\<close> attribute only, the second has no quality attribute, and the predicate
  answers true.
\<close>

theorem isfcdaPairWithQuality_bare_elements:
  "getAttribute (Element None ''FCDA'' [(''fc'', ''ST'')] None None) ''ldInst'' = None \<and>
   getAttribute (Element None ''FCDA'' [(''fc'', ''ST'')] None None) ''prefix'' = None \<and>
   getAttribute (Element None ''FCDA'' [(''fc'', ''ST'')] None None) ''lnClass'' = None \<and>
   getAttribute (Element None ''FCDA'' [(''fc'', ''ST'')] None None) ''lnInst'' = None \<and>
   getAttribute (Element None ''FCDA'' [(''fc'', ''ST'')] None None) ''doName'' = None \<and>
   getAttribute (Element None ''FCDA'' [(''fc'', ''ST'')] None None) ''daName'' = None \<and>
   isfcdaPairWithQuality (Element None ''FCDA'' [(''fc'', ''ST'')] None None)
                         (Element None ''FCDA'' [(''fc'', ''ST'')] None None)"
  by (simp add: isfcdaPairWithQuality_def getAttribute_def)

text \<open>
  The first disjunct of the comparison holds of \<^verbatim>\<open>daName\<close> too: two elements with the
  same six readings, missing ones included, are a pair, whatever the second element's
  \<^verbatim>\<open>daName\<close> is. An attribute present on the first element and missing on the second
  makes them no pair.
\<close>

lemma isfcdaPairWithQuality_same_readings:
  assumes "list_all (\<lambda>attr. getAttribute a attr = getAttribute b attr)
             [''ldInst'', ''prefix'', ''lnClass'', ''lnInst'', ''doName'', ''daName'']"
  shows "isfcdaPairWithQuality a b"
  using assms by (simp add: isfcdaPairWithQuality_def)

lemma isfcdaPairWithQuality_missing_on_second:
  assumes "attr \<in> set [''ldInst'', ''prefix'', ''lnClass'', ''lnInst'', ''doName'', ''daName'']"
      and "getAttribute a attr \<noteq> None" and "getAttribute b attr = None"
  shows "\<not> isfcdaPairWithQuality a b"
proof -
  have "\<not> (getAttribute a attr = getAttribute b attr \<or>
          (attr = ''daName'' \<and>
           (case getAttribute b ''daName'' of
              None \<Rightarrow> False
            | Some d \<Rightarrow>
                (case slice (split_on d CHR ''.'') (- 1) None of
                   [] \<Rightarrow> False
                 | s # _ \<Rightarrow> s = ''q''))))"
    using assms(2,3) by auto
  with assms(1) show ?thesis
    unfolding isfcdaPairWithQuality_def list_all_iff by blast
qed

text \<open>
  Claim C10. \<^verbatim>\<open>extRefMatchNR\<close> does not ask the two internal addresses to differ:
  whenever both elements carry the same \<^verbatim>\<open>intAddr\<close> and its last dot-separated segment
  ends in the character \<^verbatim>\<open>q\<close>, the predicate answers true. Nothing is asked of the first
  element's last segment.
\<close>

theorem extRefMatchNR_same_intAddr:
  assumes "getAttribute a ''intAddr'' = Some s"
      and "getAttribute b ''intAddr'' = Some s"
      and "last (split_on s CHR ''.'') \<noteq> []"
      and "last (last (split_on s CHR ''.'')) = CHR ''q''"
  shows "extRefMatchNR a b"
proof -
  let ?parts = "split_on s CHR ''.''"
  have "?parts ! (length ?parts - 1) = last ?parts"
    using split_on_not_Nil [of s "CHR ''.''"] by (simp add: last_conv_nth)
  moreover have "slice (last ?parts) (- 1) None = ''q''"
    using assms(3,4) by (simp add: slice_last_char)
  ultimately show ?thesis
    using assms(1,2) by (simp add: extRefMatchNR_def)
qed

text \<open>
  Claim C10 at the address \<^verbatim>\<open>RxExtIn1.q\<close>: the quality ExtRef of the small document pairs
  with a detached element carrying the very same address.
\<close>

theorem extRefMatchNR_same_intAddr_witness:
  "getAttribute (qualityExtRef ''NRR'') ''intAddr'' = Some ''RxExtIn1.q'' \<and>
   split_on ''RxExtIn1.q'' CHR ''.'' = [''RxExtIn1'', ''q''] \<and>
   extRefMatchNR (qualityExtRef ''NRR'')
                 (Element None ''ExtRef'' [(''intAddr'', ''RxExtIn1.q'')] None None)"
proof -
  have parts: "split_on ''RxExtIn1.q'' CHR ''.'' = [''RxExtIn1'', ''q'']"
    by (simp add: split_on_def)
  show ?thesis
    using extRefMatchNR_same_intAddr
            [of "qualityExtRef ''NRR''" "''RxExtIn1.q''"
                "Element None ''ExtRef'' [(''intAddr'', ''RxExtIn1.q'')] None None"]
    by (simp add: parts qualityExtRef_def getAttribute_def)
qed

section \<open>The value/quality propagation\<close>

text \<open>
  Claim C5. One invocation of \<^verbatim>\<open>modifyValueAndQualityPair\<close> dispatches at most one
  request, and never both a subscribe and an unsubscribe request: the two guards
  disagree on \<open>wasSubscribed\<close>.
\<close>

theorem at_most_one_dispatch_per_pair:
  "length (modifyValueAndQualityPair doc firstExtRef pre firstFcda) \<le> 1 \<and>
   \<not> ((\<exists>s f cb. Subscribe s f cb \<in> set (modifyValueAndQualityPair doc firstExtRef pre firstFcda)) \<and>
       (\<exists>us. Unsubscribe us \<in> set (modifyValueAndQualityPair doc firstExtRef pre firstFcda)))"
  using modifyValueAndQualityPair_shape [of doc firstExtRef pre firstFcda] by auto

text \<open>
  Claim C5 on the small document: the value ExtRef has just been bound, and the one
  request dispatched subscribes the quality ExtRef to the quality FCDA.
\<close>

theorem at_most_one_dispatch_per_pair_witness:
  "modifyValueAndQualityPair (liveDoc (boundExtRef ''NRR'')) (boundExtRef ''NRR'')
       (Some (importNode (unboundExtRef ''NRR''))) fcdaValue =
     [Subscribe (qualityExtRef ''NRR'') fcdaQuality gseControl] \<and>
   length (modifyValueAndQualityPair (liveDoc (boundExtRef ''NRR'')) (boundExtRef ''NRR'')
       (Some (importNode (unboundExtRef ''NRR''))) fcdaValue) \<le> 1"
  using at_most_one_dispatch_per_pair
          [of "liveDoc (boundExtRef ''NRR'')" "boundExtRef ''NRR''"
              "Some (importNode (unboundExtRef ''NRR''))" fcdaValue]
  by (simp add: pair_subscribes)

text \<open>
  Claim C9. When the sibling pair exists and matches, a snapshot that was subscribed
  together with a first ExtRef that no longer is makes the propagation dispatch exactly
  the unsubscribe request for the next ExtRef, whatever \<^verbatim>\<open>findControlBlock\<close> answers;
  and when \<^verbatim>\<open>findControlBlock\<close> resolves nothing, no subscribe request is dispatched.
\<close>

theorem unsubscribe_needs_no_control_block:
  assumes "nextElementSibling firstFcda = Some nextFcda"
      and "nextElementSibling firstExtRef = Some nextExtRef"
      and "extRefMatchNR firstExtRef nextExtRef"
      and "isfcdaPairWithQuality firstFcda nextFcda"
  shows "(pre = Some p \<and> isSubscribed doc p \<and> \<not> isSubscribed doc firstExtRef \<longrightarrow>
            modifyValueAndQualityPair doc firstExtRef pre firstFcda =
              [Unsubscribe [nextExtRef]]) \<and>
         (findControlBlock doc firstExtRef = None \<longrightarrow>
            (\<forall>s f cb. Subscribe s f cb \<notin>
                        set (modifyValueAndQualityPair doc firstExtRef pre firstFcda)))"
proof (intro conjI impI)
  assume "pre = Some p \<and> isSubscribed doc p \<and> \<not> isSubscribed doc firstExtRef"
  then show "modifyValueAndQualityPair doc firstExtRef pre firstFcda = [Unsubscribe [nextExtRef]]"
    using assms by (simp add: modifyValueAndQualityPair_def Let_def)
next
  assume "findControlBlock doc firstExtRef = None"
  then show "\<forall>s f cb. Subscribe s f cb \<notin>
                       set (modifyValueAndQualityPair doc firstExtRef pre firstFcda)"
    using modifyValueAndQualityPair_unresolved [of doc firstExtRef pre firstFcda] by auto
qed

text \<open>
  Claim C9 on the small document: the value ExtRef has just been unbound, no control
  block resolves for it, and the unsubscribe request for the quality ExtRef is dispatched.
\<close>

theorem unsubscribe_needs_no_control_block_witness:
  "findControlBlock (liveDoc (unboundExtRef ''NRR'')) (unboundExtRef ''NRR'') = None \<and>
   modifyValueAndQualityPair (liveDoc (unboundExtRef ''NRR'')) (unboundExtRef ''NRR'')
       (Some (importNode (boundExtRef ''NRR''))) fcdaValue =
     [Unsubscribe [qualityExtRef ''NRR'']]"
proof -
  have sibF: "nextElementSibling fcdaValue = Some fcdaQuality"
    by (simp add: fcdaValue_def)
  have sibE: "nextElementSibling (unboundExtRef ''NRR'') = Some (qualityExtRef ''NRR'')"
    by (simp add: unboundExtRef_def)
  have was: "isSubscribed (liveDoc (unboundExtRef ''NRR'')) (importNode (boundExtRef ''NRR''))"
    by (simp add: liveDoc_def importNode_def boundExtRef_def hasAttribute_def getAttribute_def)
  have now: "\<not> isSubscribed (liveDoc (unboundExtRef ''NRR'')) (unboundExtRef ''NRR'')"
    by (simp add: liveDoc_def unboundExtRef_def hasAttribute_def getAttribute_def)
  have cb: "findControlBlock (liveDoc (unboundExtRef ''NRR'')) (unboundExtRef ''NRR'') = None"
    by (simp add: liveDoc_def unboundExtRef_def hasAttribute_def getAttribute_def)
  show ?thesis
    using unsubscribe_needs_no_control_block
            [OF sibF sibE value_quality_addresses value_quality_fcdas,
             of "Some (importNode (boundExtRef ''NRR''))" "importNode (boundExtRef ''NRR'')"
                "liveDoc (unboundExtRef ''NRR'')"]
          was now cb
    by simp
qed

section \<open>The per-element reconciliation\<close>

text \<open>
  Claim C1. \<^verbatim>\<open>processNRExtRef\<close> on the unbound value ExtRef of the small document with an
  absent snapshot, where the claim expects the procedure to stop without looking up any
  descriptor: the early return is not taken, and the run reaches \<^verbatim>\<open>findFCDAs\<close> with
  the absent snapshot.
\<close>

theorem processNRExtRef_absent_snapshot:
  "\<not> isSubscribed (liveDoc (unboundExtRef ''NRR'')) (unboundExtRef ''NRR'') \<and>
   processNRExtRef (liveDoc (unboundExtRef ''NRR'')) (unboundExtRef ''NRR'') None =
     Inl AbsentSnapshot"
  by (simp add: processNRExtRef_def liveDoc_def unboundExtRef_def hasAttribute_def
        getAttribute_def)

section \<open>The two handlers\<close>

text \<open>
  Claim C6. For a notification that passes \<^verbatim>\<open>shouldListen\<close>, whose flattened edit list
  has length \<open>N\<close>, \<^verbatim>\<open>captureMetadata\<close> leaves a snapshot sequence of length \<open>N\<close>; its
  entry at index \<open>i\<close> is a detached copy of the updated element, with the element's
  attributes, when entry \<open>i\<close> is an update of an ExtRef, and absent otherwise.
\<close>

theorem capture_snapshot_sequence:
  assumes "shouldListen event"
  shows "length (preEventExtRef (captureMetadata doc event this)) =
           length (flat [detail event]) \<and>
         (\<forall>i < length (flat [detail event]).
            preEventExtRef (captureMetadata doc event this) ! i =
              (case flat [detail event] ! i of
                 Update r attrs \<Rightarrow>
                   if tagName (deref doc r) = ''ExtRef''
                   then Some (Element None ''ExtRef'' (attributes (deref doc r)) None None)
                   else None
               | _ \<Rightarrow> None))"
proof -
  obtain b where cap: "captureMetadata doc event this =
      this\<lparr>ignoreSupervision := b, preEventExtRef := map (snapshot doc) (flat [detail event])\<rparr>"
    using captureMetadata_gate [OF assms] by blast
  have "snapshot doc e =
          (case e of
             Update r attrs \<Rightarrow>
               if tagName (deref doc r) = ''ExtRef''
               then Some (Element None ''ExtRef'' (attributes (deref doc r)) None None)
               else None
           | _ \<Rightarrow> None)" for e
    by (cases e) (auto simp: importNode_def dest: tagName_ExtRef)
  then show ?thesis by (simp add: cap)
qed

text \<open>
  Claim C6 on the small document: the notification flattens to an update of the value
  ExtRef followed by an insert, and the snapshot sequence is the copy of the ExtRef
  followed by an absent entry.
\<close>

theorem capture_snapshot_sequence_witness:
  "shouldListen bindingEvent \<and>
   flat [detail bindingEvent] = [Update 0 [(''iedName'', Some ''Pub'')], Insert 2 3 None] \<and>
   preEventExtRef (captureMetadata (liveDoc (unboundExtRef ''NRR'')) bindingEvent (idle True)) =
     [Some (Element None ''ExtRef'' [(''intAddr'', ''RxExtIn1.stVal'')] None None), None]"
proof -
  let ?doc = "liveDoc (unboundExtRef ''NRR'')"
  let ?snaps = "preEventExtRef (captureMetadata ?doc bindingEvent (idle True))"
  from capture_snapshot_sequence [OF gate_bindingEvent, of ?doc "idle True"]
  have len: "length ?snaps = 2"
    and ent: "\<forall>i<2. ?snaps ! i =
              (case [Update 0 [(''iedName'', Some ''Pub'')], Insert 2 3 None] ! i of
                 Update r attrs \<Rightarrow>
                   if tagName (deref ?doc r) = ''ExtRef''
                   then Some (Element None ''ExtRef'' (attributes (deref ?doc r)) None None)
                   else None
               | _ \<Rightarrow> None)"
    by (simp_all add: flat_bindingEvent)
  from ent have "?snaps ! 0 = Some (Element None ''ExtRef'' [(''intAddr'', ''RxExtIn1.stVal'')] None None)"
    by (simp add: liveDoc_def unboundExtRef_def)
  moreover from ent have "?snaps ! 1 = None"
    by simp
  ultimately have
    "?snaps = [Some (Element None ''ExtRef'' [(''intAddr'', ''RxExtIn1.stVal'')] None None), None]"
    using len by (simp add: list_eq_iff_nth_eq less_Suc_eq numeral_2_eq_2)
  with gate_bindingEvent flat_bindingEvent show ?thesis by simp
qed

text \<open>
  Claim C7. When the component is not enabled, \<^verbatim>\<open>modifyAdditionalExtRefs\<close> dispatches
  nothing and leaves the component as it is, whatever the notification; the round trip
  of a notification then ends in the state \<^verbatim>\<open>captureMetadata\<close> left, which holds the
  snapshots of the notification when the gate passes.
\<close>

theorem disabled_component_dispatches_nothing:
  assumes "\<not> enabled this"
  shows "modifyAdditionalExtRefs host doc event this = Inr (this, []) \<and>
         onOscdEdit host earlier later event this =
           Inr (captureMetadata earlier event this, []) \<and>
         (shouldListen event \<longrightarrow>
            preEventExtRef (captureMetadata earlier event this) =
              map (snapshot earlier) (flat [detail event]))"
proof (intro conjI impI)
  show "modifyAdditionalExtRefs host doc event this = Inr (this, [])"
    using assms by (simp add: modifyAdditionalExtRefs_def)
next
  have "\<not> enabled (captureMetadata earlier event this)"
    using assms by (simp add: captureMetadata_enabled)
  then show "onOscdEdit host earlier later event this =
      Inr (captureMetadata earlier event this, [])"
    by (simp add: onOscdEdit_def modifyAdditionalExtRefs_def Let_def)
next
  assume "shouldListen event"
  then obtain b where "captureMetadata earlier event this =
      this\<lparr>ignoreSupervision := b,
           preEventExtRef := map (snapshot earlier) (flat [detail event])\<rparr>"
    using captureMetadata_gate by blast
  then show "preEventExtRef (captureMetadata earlier event this) =
      map (snapshot earlier) (flat [detail event])"
    by simp
qed

text \<open>
  Claim C7 on the small document: the component is disabled, the value ExtRef of an NRR
  device is bound by the notification, nothing is dispatched, and the snapshot of the
  ExtRef has been recorded.
\<close>

theorem disabled_component_dispatches_nothing_witness:
  "\<not> enabled (idle False) \<and> shouldListen bindingEvent \<and>
   onOscdEdit inertHost (liveDoc (unboundExtRef ''NRR'')) (liveDoc (boundExtRef ''NRR''))
       bindingEvent (idle False) =
     Inr (\<lparr>preEventExtRef =
             [Some (Element None ''ExtRef'' [(''intAddr'', ''RxExtIn1.stVal'')] None None), None],
           ignoreSupervision = True, enabled = False\<rparr>, [])"
proof -
  have off: "\<not> enabled (idle False)"
    by (simp add: idle_def)
  show ?thesis
    using disabled_component_dispatches_nothing
            [OF off, of inertHost "liveDoc (boundExtRef ''NRR'')" bindingEvent
               "liveDoc (unboundExtRef ''NRR'')" "liveDoc (boundExtRef ''NRR'')"]
      off gate_bindingEvent
    by (simp add: capture_unbound)
qed

text \<open>
  Claim C8. An update of an element whose nearest IED ancestor, found by local name
  whatever its prefix, does not carry the manufacturer \<^verbatim>\<open>NRR\<close> (another value, no
  such attribute, or no IED ancestor) is passed over by the loop of
  \<^verbatim>\<open>modifyAdditionalExtRefs\<close>: the callback does not reconcile and dispatches nothing,
  and the loop goes on with the next index, the same document and the same requests.
\<close>

theorem other_manufacturer_skipped:
  assumes "Option.bind (closest ''IED'' (deref doc r))
             (\<lambda>ied. getAttribute ied ''manufacturer'') \<noteq> Some ''NRR''"
  shows "editCallback doc snapshots (Update r attrs) index = Inr [] \<and>
         forEachEdit host snapshots (Update r attrs # es) index doc out =
           forEachEdit host snapshots es (Suc index) doc out"
  using assms by simp

text \<open>
  Claim C8 on the small document with the manufacturer \<^verbatim>\<open>SEL\<close>: the value ExtRef has
  just been bound and its snapshot is at hand, yet nothing is dispatched.
\<close>

theorem other_manufacturer_skipped_witness:
  "Option.bind (closest ''IED'' (deref (liveDoc (boundExtRef ''SEL'')) 0))
       (\<lambda>ied. getAttribute ied ''manufacturer'') = Some ''SEL'' \<and>
   editCallback (liveDoc (boundExtRef ''SEL''))
       [Some (Element None ''ExtRef'' [(''intAddr'', ''RxExtIn1.stVal'')] None None)]
       (Update 0 [(''iedName'', Some ''Pub'')]) 0 = Inr [] \<and>
   forEachEdit inertHost
       [Some (Element None ''ExtRef'' [(''intAddr'', ''RxExtIn1.stVal'')] None None)]
       [Update 0 [(''iedName'', Some ''Pub'')]] 0 (liveDoc (boundExtRef ''SEL'')) [] =
     Inr (liveDoc (boundExtRef ''SEL''), [])"
proof -
  have m: "Option.bind (closest ''IED'' (deref (liveDoc (boundExtRef ''SEL'')) 0))
       (\<lambda>ied. getAttribute ied ''manufacturer'') = Some ''SEL''"
    by (simp add: liveDoc_def manufacturer_bound)
  then have ne: "Option.bind (closest ''IED'' (deref (liveDoc (boundExtRef ''SEL'')) 0))
       (\<lambda>ied. getAttribute ied ''manufacturer'') \<noteq> Some ''NRR''"
    by simp
  from other_manufacturer_skipped [OF ne, of
      "[Some (Element None ''ExtRef'' [(''intAddr'', ''RxExtIn1.stVal'')] None None)]"
      "[(''iedName'', Some ''Pub'')]" 0 inertHost "[]" "[]"]
  show ?thesis using m by simp
qed

text \<open>
  Claim C4, as stated: the snapshot sequence would be cleared and the supervision flag
  reset by the end of every round trip, also with the component disabled. With the
  component disabled, a notification that unbinds the value ExtRef leaves the snapshot
  and the raised flag in the component.
\<close>

theorem snapshots_kept_when_disabled:
  "onOscdEdit inertHost (liveDoc (boundExtRef ''NRR'')) (liveDoc (unboundExtRef ''NRR''))
       unbindingEvent (idle False) =
     Inr (\<lparr>preEventExtRef =
             [Some (Element None ''ExtRef'' [(''intAddr'', ''RxExtIn1.stVal''), (''iedName'', ''Pub'')]
                      None None), None],
           ignoreSupervision = True, enabled = False\<rparr>, [])"
  by (simp add: onOscdEdit_def gate_unbindingEvent capture_bound modifyAdditionalExtRefs_def)

text \<open>
  Claim C4, amended. For a notification that passes the gate, with tags that stay as they
  are: when the component is enabled the round trip returns with the snapshot sequence
  cleared and the supervision flag reset; when it is disabled the round trip ends in
  the state the capture left, snapshots included. In both cases the round trip is the
  same whatever snapshot sequence the component held before, so no snapshot of an
  earlier notification is read.
\<close>

theorem snapshots_last_one_round_trip:
  assumes gate: "shouldListen event"
      and host: "\<forall>req d r. tagName (deref (host req d) r) = tagName (deref d r)"
      and doc: "\<forall>r. tagName (deref later r) = tagName (deref earlier r)"
  shows "(enabled this \<longrightarrow>
            (\<exists>out. onOscdEdit host earlier later event this =
                     Inr (this\<lparr>preEventExtRef := [], ignoreSupervision := False\<rparr>, out))) \<and>
         (\<not> enabled this \<longrightarrow>
            onOscdEdit host earlier later event this =
              Inr (captureMetadata earlier event this, [])) \<and>
         onOscdEdit host earlier later event (this\<lparr>preEventExtRef := stale\<rparr>) =
           onOscdEdit host earlier later event this"
proof (intro conjI impI)
  obtain b where cap: "captureMetadata earlier event this =
      this\<lparr>ignoreSupervision := b,
           preEventExtRef := map (snapshot earlier) (flat [detail event])\<rparr>"
    using captureMetadata_gate [OF gate] by blast
  {
    assume on: "enabled this"
    obtain doc' out where
      "forEachEdit host (map (snapshot earlier) (flat [detail event])) (flat [detail event])
         0 later [] = Inr (doc', out)"
      using react_after_capture_returns [OF host doc] by blast
    then have "onOscdEdit host earlier later event this =
        Inr (this\<lparr>preEventExtRef := [], ignoreSupervision := False\<rparr>, out)"
      using on gate by (simp add: onOscdEdit_def modifyAdditionalExtRefs_def cap)
    then show "\<exists>out. onOscdEdit host earlier later event this =
        Inr (this\<lparr>preEventExtRef := [], ignoreSupervision := False\<rparr>, out)" ..
  }
  {
    assume "\<not> enabled this"
    then show "onOscdEdit host earlier later event this =
        Inr (captureMetadata earlier event this, [])"
      using gate by (simp add: onOscdEdit_def modifyAdditionalExtRefs_def cap)
  }
  have "captureMetadata earlier event (this\<lparr>preEventExtRef := stale\<rparr>) =
        captureMetadata earlier event this"
    using gate shouldListen_target [OF gate] by (auto simp: captureMetadata_def)
  then show "onOscdEdit host earlier later event (this\<lparr>preEventExtRef := stale\<rparr>) =
      onOscdEdit host earlier later event this"
    by (simp add: onOscdEdit_def)
qed

text \<open>
  Claim C4, amended, on the small document, where the notification binds the value
  ExtRef: enabled, the component ends as it started, with no snapshot; disabled, it keeps
  the snapshot; and a stale snapshot sequence changes nothing.
\<close>

theorem snapshots_last_one_round_trip_witness:
  "shouldListen bindingEvent \<and>
   onOscdEdit inertHost (liveDoc (unboundExtRef ''NRR'')) (liveDoc (boundExtRef ''NRR''))
       bindingEvent (idle True) =
     Inr (idle True, [Subscribe (qualityExtRef ''NRR'') fcdaQuality gseControl]) \<and>
   onOscdEdit inertHost (liveDoc (unboundExtRef ''NRR'')) (liveDoc (boundExtRef ''NRR''))
       bindingEvent (idle False) =
     Inr (\<lparr>preEventExtRef =
             [Some (Element None ''ExtRef'' [(''intAddr'', ''RxExtIn1.stVal'')] None None), None],
           ignoreSupervision = True, enabled = False\<rparr>, []) \<and>
   onOscdEdit inertHost (liveDoc (unboundExtRef ''NRR'')) (liveDoc (boundExtRef ''NRR''))
       bindingEvent ((idle True)\<lparr>preEventExtRef := [None, Some fcdaValue]\<rparr>) =
     Inr (idle True, [Subscribe (qualityExtRef ''NRR'') fcdaQuality gseControl])"
proof -
  have host: "\<forall>req d r. tagName (deref (inertHost req d) r) = tagName (deref d r)"
    by (simp add: inertHost_def)
  have doc: "\<forall>r. tagName (deref (liveDoc (boundExtRef ''NRR'')) r) =
                 tagName (deref (liveDoc (unboundExtRef ''NRR'')) r)"
    by (simp add: liveDoc_def boundExtRef_def unboundExtRef_def)
  have on: "enabled (idle True)" and off: "\<not> enabled (idle False)"
    by (simp_all add: idle_def)
  have clear: "(idle True)\<lparr>preEventExtRef := [], ignoreSupervision := False\<rparr> = idle True"
    by (simp add: idle_def)
  show ?thesis
    using snapshots_last_one_round_trip
            [OF gate_bindingEvent host doc, of "idle True" "[None, Some fcdaValue]"]
          snapshots_last_one_round_trip [OF gate_bindingEvent host doc, of "idle False" "[]"]
          on off gate_bindingEvent
    by (simp add: clear capture_unbound round_trip_subscribes)
qed

end
